theory Spec2Isabelle
  imports Complex_Main
begin

section \<open>FlowLinesLayer and the example application's tooltip\<close>

text \<open>
  The development embeds the two TypeScript modules of the repository: the instanced
  flow-lines layer (\<^verbatim>\<open>FlowLinesLayer\<close>) and the tooltip function of the example
  application (\<^verbatim>\<open>getTooltipState\<close>).

  JavaScript numbers are modelled as reals. Every arithmetic operation the modelled code
  performs on them (negation, doubling, division by 255) is written out as the real
  operation. A \<^verbatim>\<open>Float32Array\<close> is represented by the list of numbers it was
  constructed from: the constructor keeps length and order, and the literals of the
  templates (0, 1, 2, -3) are single-precision values.
\<close>

subsection \<open>Colours and module constants\<close>

type_synonym RGBA = "real list"

definition DEFAULT_COLOR :: RGBA where
  "DEFAULT_COLOR = [0, 132, 193, 255]"

definition INNER_SIDE_OUTLINE_THICKNESS :: real where
  "INNER_SIDE_OUTLINE_THICKNESS = 1"

text \<open>
  Three numbers per vertex: source/target mix, perpendicular offset and
  direction-of-travel offset, both in thickness units.
\<close>

definition POSITIONS :: "real list" where
  "POSITIONS =
    [1, 0, 0,
     1, 2, - 3,
     1, 1, - 3,

     1, 0, 0,
     1, 1, - 3,
     0, 1, 0,

     1, 0, 0,
     0, 1, 0,
     0, 0, 0]"

text \<open>
  Three numbers per vertex: perpendicular offset in pixels, direction-of-travel offset in
  pixels, fill/outline colour mix.
\<close>

definition getOutlinePixelOffsets :: "real \<Rightarrow> real \<Rightarrow> real list" where
  "getOutlinePixelOffsets tout tin =
    [- tin, 2 * tout, 1,
     2 * tout, - tout, 1,
     tout, - tout, 1,

     - tin, 2 * tout, 1,
     tout, - tout, 1,
     tout, - tout, 1,

     - tin, 2 * tout, 1,
     tout, - tout, 1,
     - tin, - tout, 1]"

definition ZEROES :: "real list" where
  "ZEROES =
    [0, 0, 0,
     0, 0, 0,
     0, 0, 0,
     0, 0, 0,
     0, 0, 0,
     0, 0, 0,
     0, 0, 0,
     0, 0, 0,
     0, 0, 0]"

subsection \<open>Props\<close>

text \<open>
  \<open>Config\<close> holds the options that \<^verbatim>\<open>defaultProps\<close> and the props of a layer have in
  common; \<open>Props\<close> is \<^verbatim>\<open>this.props\<close> after the host has merged the defaults in, so
  the optional fields of the interface are present. The records are extensible: the
  fields that no modelled method reads (opacity, pickable, updateTriggers) live in the
  extension.
\<close>

record Config =
  drawOutline :: bool
  thicknessUnit :: real
  outlineThickness :: real
  outlineColor :: RGBA

record 'd Props = Config +
  layer_id :: string
  data :: 'd

subsection \<open>Geometry and model\<close>

datatype Float32Array = Float32Array (elements: "real list")

record Attribute =
  attr_size :: nat
  attr_value :: Float32Array

record Geometry =
  topology :: string
  positions :: Attribute
  normals :: Attribute

record 'sh ModelProps =
  model_id :: string
  shaders :: 'sh
  geometry :: Geometry
  isInstanced :: bool

text \<open>A model is represented by the arguments of its constructor.\<close>

datatype 'sh Model = Model (model_device: nat) (model_props: "'sh ModelProps")

record 'sh LayerState =
  model :: "'sh Model option"

text \<open>
  The layer object: its props, its state, the device of its context, and the value of
  \<^verbatim>\<open>this.getShaders()\<close> (the vertex and fragment sources are GLSL files and the
  modules are the host's; the method reads nothing of the layer).
\<close>

record ('d, 'sh) Layer =
  props :: "'d Props"
  state :: "'sh LayerState"
  device :: nat
  getShaders :: 'sh

definition vertexCount :: "Attribute \<Rightarrow> nat" where
  "vertexCount a = length (elements (attr_value a)) div attr_size a"

definition getModel :: "('d, 'sh) Layer \<Rightarrow> 'sh Model" where
  "getModel this =
    (let positions0 = [];
         pixelOffsets0 = [];
         (positions1, pixelOffsets1) =
           (if drawOutline (props this) then
              (let tout = outlineThickness (props this);
                   tin = INNER_SIDE_OUTLINE_THICKNESS
               in (positions0 @ POSITIONS, pixelOffsets0 @ getOutlinePixelOffsets tout tin))
            else (positions0, pixelOffsets0));
         positions2 = positions1 @ POSITIONS;
         pixelOffsets2 = pixelOffsets1 @ ZEROES
     in Model (device this)
          \<lparr>model_id = layer_id (props this),
           shaders = getShaders this,
           geometry =
             \<lparr>topology = ''triangle-list'',
              positions = \<lparr>attr_size = 3, attr_value = Float32Array positions2\<rparr>,
              normals = \<lparr>attr_size = 3, attr_value = Float32Array pixelOffsets2\<rparr>\<rparr>,
           isInstanced = True\<rparr>)"

text \<open>The two arrays of a model's geometry.\<close>

definition positionsOf :: "'sh Model \<Rightarrow> real list" where
  "positionsOf m = elements (attr_value (positions (geometry (model_props m))))"

definition pixelOffsetsOf :: "'sh Model \<Rightarrow> real list" where
  "pixelOffsetsOf m = elements (attr_value (normals (geometry (model_props m))))"

subsection \<open>Layer lifecycle\<close>

text \<open>
  The calls a method makes on its collaborators (the base class, the model, the attribute
  manager, the GL context) are returned as a list, in the order the method makes them.
\<close>

datatype uniform = UNum real | UVec "real list"

datatype 'sh call =
    SuperUpdateState
  | ModelDestroy "'sh Model"
  | ModelNew "'sh Model"
  | InvalidateAll
  | GlLineWidth real
  | ModelSetUniforms "'sh Model" "string \<Rightarrow> uniform option"
  | ModelDraw "'sh Model"

datatype error = TypeError

record ChangeFlags =
  dataChanged :: bool
  propsChanged :: bool
  extensionsChanged :: bool

record 'd UpdateParams =
  params_props :: "'d Props"
  oldProps :: "'d Props"
  changeFlags :: ChangeFlags

definition FlowLinesLayer :: "'d Props \<Rightarrow> nat \<Rightarrow> 'sh \<Rightarrow> ('d, 'sh) Layer" where
  \<comment> \<open>the constructor: a layer with the given props and no model yet\<close>
  "FlowLinesLayer p dev sh = \<lparr>props = p, state = \<lparr>model = None\<rparr>, device = dev, getShaders = sh\<rparr>"

definition updateState ::
    "('d, 'sh) Layer \<Rightarrow> 'd UpdateParams \<Rightarrow> ('d, 'sh) Layer \<times> 'sh call list" where
  "updateState this params =
    (if extensionsChanged (changeFlags params) then
       (let m = getModel this
        in (this\<lparr>state := (state this)\<lparr>model := Some m\<rparr>\<rparr>,
            [SuperUpdateState]
              @ (case model (state this) of None \<Rightarrow> [] | Some old \<Rightarrow> [ModelDestroy old])
              @ [ModelNew m, InvalidateAll]))
     else (this, [SuperUpdateState]))"

text \<open>
  The host's render loop: before each update it installs the new props on the layer, then
  calls \<^verbatim>\<open>updateState\<close> with the params of that update.
\<close>

fun updates ::
    "('d, 'sh) Layer \<Rightarrow> 'd UpdateParams list \<Rightarrow> ('d, 'sh) Layer \<times> 'sh call list" where
  "updates this [] = (this, [])"
| "updates this (p # ps) =
    (let (this1, calls1) = updateState (this\<lparr>props := params_props p\<rparr>) p;
         (this2, calls2) = updates this1 ps
     in (this2, calls1 @ calls2))"

fun isModelNew :: "'sh call \<Rightarrow> bool" where
  "isModelNew (ModelNew m) = True"
| "isModelNew c = False"

definition draw ::
    "('d, 'sh) Layer \<Rightarrow> (string \<Rightarrow> uniform option) \<Rightarrow> 'sh call list \<times> error option" where
  \<comment> \<open>a layer without a model fails at \<^verbatim>\<open>this.state.model.setUniforms\<close>, after the line width is set\<close>
  "draw this uniforms =
    (case model (state this) of
       None \<Rightarrow> ([GlLineWidth 1], Some TypeError)
     | Some m \<Rightarrow>
         ([GlLineWidth 1,
           ModelSetUniforms m
             (uniforms
               (''outlineColor'' \<mapsto> UVec (map (\<lambda>x. x / 255) (outlineColor (props this))),
                ''thicknessUnit'' \<mapsto> UNum (thicknessUnit (props this) * 2.0),
                ''gap'' \<mapsto> UNum 0.5)),
           ModelDraw m],
          None))"

fun sentUniforms :: "'sh call list \<Rightarrow> (string \<Rightarrow> uniform option) option" where
  \<comment> \<open>the uniforms of the first \<^verbatim>\<open>setUniforms\<close> call in a list of calls\<close>
  "sentUniforms [] = None"
| "sentUniforms (ModelSetUniforms m u # cs) = Some u"
| "sentUniforms (c # cs) = sentUniforms cs"

subsection \<open>Default props\<close>

text \<open>
  A flow record is any record with a colour and a count. The colour of a record is
  absent, or a string, a number or an array of numbers.
\<close>

datatype jsColor = ColorString string | ColorNumber real | ColorArray "real list"

fun truthy :: "jsColor \<Rightarrow> bool" where
  "truthy (ColorString s) = (s \<noteq> [])"
| "truthy (ColorNumber n) = (n \<noteq> 0)"
| "truthy (ColorArray xs) = True"

record FlowRecord =
  color :: "jsColor option"
  count :: real

record Parameters =
  depthTest :: bool

record 'f DefaultProps = Config +
  getSourcePosition :: "'f \<Rightarrow> real list"
  getTargetPosition :: "'f \<Rightarrow> real list"
  getColor :: "'f \<Rightarrow> RGBA"
  getThickness :: "'f \<Rightarrow> real"
  getPickable :: "'f \<Rightarrow> real"
  parameters :: Parameters

text \<open>
  \<^verbatim>\<open>colorAsRgba\<close> is imported from the data package; it is a parameter here. Its result
  is \<open>None\<close> where it returns a falsy value.
\<close>

definition defaultProps ::
    "(jsColor \<Rightarrow> RGBA option) \<Rightarrow> ('a FlowRecord_scheme) DefaultProps" where
  "defaultProps colorAsRgba =
    \<lparr>drawOutline = True,
     thicknessUnit = 12,
     outlineThickness = 1,
     outlineColor = [255, 255, 255, 255],
     getSourcePosition = (\<lambda>d. [0, 0]),
     getTargetPosition = (\<lambda>d. [0, 0]),
     getColor = (\<lambda>d.
       case (case color d of
               None \<Rightarrow> None
             | Some c \<Rightarrow> if truthy c then colorAsRgba c else None) of
         None \<Rightarrow> DEFAULT_COLOR
       | Some rgba \<Rightarrow> rgba),
     getThickness = (\<lambda>d. count d),
     getPickable = (\<lambda>d. 1.0),
     parameters = \<lparr>depthTest = False\<rparr>\<rparr>"

text \<open>
  Modelled from the spec: \<^verbatim>\<open>colorAsRgba\<close> belongs to the data package, whose sources are
  not part of this development. The spec says of it that a record's colour is "converted to
  4 RGBA bytes in [0,255]"; \<open>isRgbaBytes\<close> is that contract for one result: four
  numbers, each an integer between 0 and 255.
\<close>

definition isByte :: "real \<Rightarrow> bool" where
  "isByte x = (0 \<le> x \<and> x \<le> 255 \<and> real_of_int \<lfloor>x\<rfloor> = x)"

definition isRgbaBytes :: "RGBA \<Rightarrow> bool" where
  "isRgbaBytes c = (length c = 4 \<and> list_all isByte c)"

subsection \<open>Tooltip of the example application\<close>

record LocationDatum =
  loc_id :: string
  loc_name :: string
  lat :: real
  lon :: real

record LocationTotals =
  incomingCount :: real
  outgoingCount :: real
  internalCount :: real

text \<open>
  The picking info is a union discriminated by its \<^verbatim>\<open>type\<close> field:
  \<^verbatim>\<open>PickingType.LOCATION\<close>, \<^verbatim>\<open>PickingType.FLOW\<close>, and, for a value from outside the
  declared union, any other tag.
\<close>

datatype PickingInfo =
    LocationPickingInfo real real string LocationTotals
  | FlowPickingInfo real real LocationDatum LocationDatum real
  | OtherPickingInfo real real string

datatype ReactNode =
    Fragment "ReactNode list"
  | Div "ReactNode list"
  | JsxText string
  | StringValue string
  | NumberValue real

record Position =
  pos_left :: real
  pos_top :: real

record TooltipState =
  position :: Position
  content :: ReactNode

definition ARROW :: string where
  \<comment> \<open>the character U+2192 in UTF-8\<close>
  "ARROW = [CHR 0xE2, CHR 0x86, CHR 0x92]"

fun getTooltipState :: "PickingInfo option \<Rightarrow> TooltipState option" where
  "getTooltipState None = None"
| "getTooltipState (Some (LocationPickingInfo x y name totals)) =
    Some \<lparr>position = \<lparr>pos_left = x, pos_top = y\<rparr>,
          content = Fragment
            [Div [StringValue name],
             Div [JsxText ''Incoming trips: '', NumberValue (incomingCount totals)],
             Div [JsxText ''Outgoing trips: '', NumberValue (outgoingCount totals)],
             Div [JsxText ''Internal or round trips: '', NumberValue (internalCount totals)]]\<rparr>"
| "getTooltipState (Some (FlowPickingInfo x y origin dest n)) =
    Some \<lparr>position = \<lparr>pos_left = x, pos_top = y\<rparr>,
          content = Fragment
            [Div [StringValue (loc_id origin), JsxText ('' '' @ ARROW @ '' ''),
                  StringValue (loc_id dest)],
             Div [NumberValue n]]\<rparr>"
| "getTooltipState (Some (OtherPickingInfo x y tag)) = None"

subsection \<open>Scenarios\<close>

text \<open>
  Two flows with counts 10 and 5 and no colour, under the default configuration; the
  layer built from them; an update whose change flags report changed extensions; and the
  layer after its first update.
\<close>

definition exampleFlows :: "FlowRecord list" where
  "exampleFlows = [\<lparr>color = None, count = 10\<rparr>, \<lparr>color = None, count = 5\<rparr>]"

definition exampleProps :: "FlowRecord list Props" where
  "exampleProps =
    \<lparr>drawOutline = True, thicknessUnit = 12, outlineThickness = 1,
     outlineColor = [255, 255, 255, 255], layer_id = ''flow-lines'', data = exampleFlows\<rparr>"

definition exampleLayer :: "(FlowRecord list, unit) Layer" where
  "exampleLayer = FlowLinesLayer exampleProps 0 ()"

definition extensionsUpdate :: "'d Props \<Rightarrow> 'd Props \<Rightarrow> 'd UpdateParams" where
  "extensionsUpdate p old =
    \<lparr>params_props = p, oldProps = old,
     changeFlags = \<lparr>dataChanged = False, propsChanged = True, extensionsChanged = True\<rparr>\<rparr>"

definition readyLayer :: "(FlowRecord list, unit) Layer" where
  "readyLayer = fst (updateState exampleLayer (extensionsUpdate exampleProps exampleProps))"

text \<open>The layer with the outline switched on or off, every other prop as it was.\<close>

definition setDrawOutline :: "bool \<Rightarrow> ('d, 'sh) Layer \<Rightarrow> ('d, 'sh) Layer" where
  "setDrawOutline b this = this\<lparr>props := (props this)\<lparr>drawOutline := b\<rparr>\<rparr>"

text \<open>
  A conversion to instantiate the parameter \<open>colorAsRgba\<close> with: it knows one colour name,
  passes arrays through and returns nothing for every other value.
\<close>

fun exampleColorAsRgba :: "jsColor \<Rightarrow> RGBA option" where
  "exampleColorAsRgba (ColorString s) = (if s = ''#ffffff'' then Some [255, 255, 255, 255] else None)"
| "exampleColorAsRgba (ColorNumber n) = None"
| "exampleColorAsRgba (ColorArray xs) = Some xs"

text \<open>The values of the expressions embedded in a node, in document order.\<close>

fun exprValues :: "ReactNode \<Rightarrow> ReactNode list" where
  "exprValues (Fragment ns) = concat (map exprValues ns)"
| "exprValues (Div ns) = concat (map exprValues ns)"
| "exprValues (JsxText s) = []"
| "exprValues (StringValue s) = [StringValue s]"
| "exprValues (NumberValue n) = [NumberValue n]"

section \<open>Properties\<close>

lemma length_POSITIONS: "length POSITIONS = 27"
  by (simp add: POSITIONS_def)

lemma length_ZEROES: "length ZEROES = 27"
  by (simp add: ZEROES_def)

lemma length_getOutlinePixelOffsets: "length (getOutlinePixelOffsets tout tin) = 27"
  by (simp add: getOutlinePixelOffsets_def)

lemma positionsOf_getModel:
  "positionsOf (getModel this) =
     (if drawOutline (props this) then POSITIONS @ POSITIONS else POSITIONS)"
  by (simp add: positionsOf_def getModel_def Let_def)

lemma pixelOffsetsOf_getModel:
  "pixelOffsetsOf (getModel this) =
     (if drawOutline (props this)
      then getOutlinePixelOffsets (outlineThickness (props this)) INNER_SIDE_OUTLINE_THICKNESS @ ZEROES
      else ZEROES)"
  by (simp add: pixelOffsetsOf_def getModel_def Let_def)


lemma props_setDrawOutline [simp]:
  "drawOutline (props (setDrawOutline b this)) = b"
  "outlineThickness (props (setDrawOutline b this)) = outlineThickness (props this)"
  by (simp_all add: setDrawOutline_def)

subsection \<open>Geometry template\<close>

text \<open>
  C1 (as the code has it): the fill shape is appended last, and its nine pixel-offset
  triples are (0, 0, 0): both pixel offsets and the colour-mix flag are zero. For every
  props the last 27 entries of the pixel-offsets array are nine triples (0, 0, 0); with
  the outline on, they are the entries from index 27, and the 27 entries before them are
  the outline shell's, whose mix flag is 1.
\<close>

theorem fill_shape_pixel_offsets_zero:
  "drop (length (pixelOffsetsOf (getModel this)) - 27) (pixelOffsetsOf (getModel this))
     = concat (replicate 9 [0, 0, 0])
   \<and> drop 27 (pixelOffsetsOf (getModel (setDrawOutline True this)))
     = concat (replicate 9 [0, 0, 0])
   \<and> take 27 (pixelOffsetsOf (getModel (setDrawOutline True this)))
     = getOutlinePixelOffsets (outlineThickness (props this)) 1"
  by (simp add: pixelOffsetsOf_getModel length_getOutlinePixelOffsets length_ZEROES
      INNER_SIDE_OUTLINE_THICKNESS_def)
     (simp add: ZEROES_def eval_nat_numeral)

text \<open>
  C1 as stated fails: under the default configuration, with the outline on, the last 27
  entries of the pixel-offsets array are not nine triples (0, 0, 1).
\<close>

theorem fill_shape_mix_one_counterexample:
  "drawOutline (props exampleLayer)
   \<and> drop 27 (pixelOffsetsOf (getModel exampleLayer)) \<noteq> concat (replicate 9 [0, 0, 1])"
  by (simp add: pixelOffsetsOf_getModel length_getOutlinePixelOffsets exampleLayer_def
      FlowLinesLayer_def exampleProps_def ZEROES_def eval_nat_numeral)

text \<open>
  C3: the template has 9 vertices (27 numbers in each array) when the outline is off and
  18 vertices (54 numbers in each array) when it is on, whatever the outline thickness;
  and the model does not depend on the data.
\<close>

theorem template_vertex_count:
  "length (positionsOf (getModel this)) = (if drawOutline (props this) then 54 else 27)
   \<and> length (pixelOffsetsOf (getModel this)) = (if drawOutline (props this) then 54 else 27)
   \<and> vertexCount (positions (geometry (model_props (getModel this))))
       = (if drawOutline (props this) then 18 else 9)
   \<and> vertexCount (normals (geometry (model_props (getModel this))))
       = (if drawOutline (props this) then 18 else 9)
   \<and> getModel (this\<lparr>props := (props this)\<lparr>data := ds\<rparr>\<rparr>) = getModel this"
  using positionsOf_getModel [of this] pixelOffsetsOf_getModel [of this]
  by (simp add: vertexCount_def positionsOf_def pixelOffsetsOf_def length_POSITIONS
      length_ZEROES length_getOutlinePixelOffsets)
     (simp add: getModel_def)

text \<open>
  C4: with the outline on, vertices 0 to 8 (the outline shell) and vertices 9 to 17 (the
  fill shape) of the positions array are the same 27 numbers, those of \<open>POSITIONS\<close>,
  whatever the outline thickness.
\<close>

theorem shells_share_positions:
  "take 27 (positionsOf (getModel (setDrawOutline True this)))
     = drop 27 (positionsOf (getModel (setDrawOutline True this)))
   \<and> take 27 (positionsOf (getModel (setDrawOutline True this))) = POSITIONS
   \<and> length (positionsOf (getModel (setDrawOutline True this))) = 54"
  by (simp add: positionsOf_getModel length_POSITIONS)

text \<open>
  C5: the template is a function of the outline flag and the outline thickness alone.
  Switching the outline on, off and on again gives the model of the first time, also when
  each switch is an update that rebuilds the model; the two arrays are those of any other
  layer with the same flag and thickness; and for every thickness \<open>t\<close>, the outline
  offsets with inner thickness \<open>INNER_SIDE_OUTLINE_THICKNESS\<close> are the 27 numbers below.
\<close>

theorem template_deterministic:
  "getModel (setDrawOutline True (setDrawOutline False (setDrawOutline True this)))
     = getModel (setDrawOutline True this)
   \<and> model (state (fst (updates this
         [extensionsUpdate (props (setDrawOutline True this)) old1,
          extensionsUpdate (props (setDrawOutline False this)) old2,
          extensionsUpdate (props (setDrawOutline True this)) old3])))
     = model (state (fst (updates this [extensionsUpdate (props (setDrawOutline True this)) old1])))
   \<and> positionsOf (getModel this)
     = positionsOf (getModel (FlowLinesLayer
         \<lparr>drawOutline = drawOutline (props this), thicknessUnit = tu,
          outlineThickness = outlineThickness (props this), outlineColor = oc,
          layer_id = i, data = d\<rparr> dev sh))
   \<and> pixelOffsetsOf (getModel this)
     = pixelOffsetsOf (getModel (FlowLinesLayer
         \<lparr>drawOutline = drawOutline (props this), thicknessUnit = tu,
          outlineThickness = outlineThickness (props this), outlineColor = oc,
          layer_id = i, data = d\<rparr> dev sh))
   \<and> getOutlinePixelOffsets t INNER_SIDE_OUTLINE_THICKNESS
     = [- 1, 2 * t, 1,  2 * t, - t, 1,  t, - t, 1,
        - 1, 2 * t, 1,  t, - t, 1,  t, - t, 1,
        - 1, 2 * t, 1,  t, - t, 1,  - 1, - t, 1]
   \<and> length (getOutlinePixelOffsets t INNER_SIDE_OUTLINE_THICKNESS) = 27"
proof -
  have toggle: "setDrawOutline True (setDrawOutline False (setDrawOutline True this))
      = setDrawOutline True this"
    by (simp add: setDrawOutline_def)
  have run: "model (state (fst (updates this
         [extensionsUpdate (props (setDrawOutline True this)) old1,
          extensionsUpdate (props (setDrawOutline False this)) old2,
          extensionsUpdate (props (setDrawOutline True this)) old3])))
     = model (state (fst (updates this [extensionsUpdate (props (setDrawOutline True this)) old1])))"
    by (simp add: updateState_def extensionsUpdate_def Let_def getModel_def)
  have pos: "positionsOf (getModel this)
     = positionsOf (getModel (FlowLinesLayer
         \<lparr>drawOutline = drawOutline (props this), thicknessUnit = tu,
          outlineThickness = outlineThickness (props this), outlineColor = oc,
          layer_id = i, data = d\<rparr> dev sh))"
    by (simp add: positionsOf_getModel FlowLinesLayer_def)
  have pix: "pixelOffsetsOf (getModel this)
     = pixelOffsetsOf (getModel (FlowLinesLayer
         \<lparr>drawOutline = drawOutline (props this), thicknessUnit = tu,
          outlineThickness = outlineThickness (props this), outlineColor = oc,
          layer_id = i, data = d\<rparr> dev sh))"
    by (simp add: pixelOffsetsOf_getModel FlowLinesLayer_def)
  have offsets: "getOutlinePixelOffsets t INNER_SIDE_OUTLINE_THICKNESS
     = [- 1, 2 * t, 1,  2 * t, - t, 1,  t, - t, 1,
        - 1, 2 * t, 1,  t, - t, 1,  t, - t, 1,
        - 1, 2 * t, 1,  t, - t, 1,  - 1, - t, 1]"
    by (simp add: getOutlinePixelOffsets_def INNER_SIDE_OUTLINE_THICKNESS_def)
  show ?thesis
    using toggle run pos pix offsets
      length_getOutlinePixelOffsets [of t INNER_SIDE_OUTLINE_THICKNESS]
    by simp
qed

subsection \<open>Updates\<close>

lemma updateState_calls:
  "length (filter isModelNew (snd (updateState this p)))
     = (if extensionsChanged (changeFlags p) then 1 else 0)"
  by (simp add: updateState_def Let_def split: option.split)

lemma updates_rebuild_count:
  "length (filter isModelNew (snd (updates this ps)))
     = length (filter (\<lambda>p. extensionsChanged (changeFlags p)) ps)"
proof (induction ps arbitrary: this)
  case Nil
  show ?case by simp
next
  case (Cons p ps)
  obtain this1 calls1
    where step: "updateState (this\<lparr>props := params_props p\<rparr>) p = (this1, calls1)"
    by (cases "updateState (this\<lparr>props := params_props p\<rparr>) p")
  obtain this2 calls2 where rest: "updates this1 ps = (this2, calls2)"
    by (cases "updates this1 ps")
  have "length (filter isModelNew calls1) = (if extensionsChanged (changeFlags p) then 1 else 0)"
    using updateState_calls [of "this\<lparr>props := params_props p\<rparr>" p] step by simp
  moreover have "length (filter isModelNew calls2)
      = length (filter (\<lambda>p. extensionsChanged (changeFlags p)) ps)"
    using Cons.IH [of this1] rest by simp
  ultimately show ?case using step rest by simp
qed

text \<open>
  C2 (as the code has it): the model is rebuilt in exactly the updates whose change flags
  have \<^verbatim>\<open>extensionsChanged\<close> set, whether or not \<open>drawOutline\<close> changed. An update
  without that flag leaves the layer as it is and only calls the base class; an update with
  it installs a new model built from the current props, and its calls are, in this order:
  the base class's update, the destruction of the old model if the layer has one, the
  construction of the new model, and the invalidation of all attributes. Across every
  sequence of updates the number of models built is the number of updates with the flag
  set.
\<close>

theorem rebuild_gated_by_extensionsChanged:
  "updateState this (params\<lparr>changeFlags := (changeFlags params)\<lparr>extensionsChanged := False\<rparr>\<rparr>)
     = (this, [SuperUpdateState])
   \<and> fst (updateState this
            (params\<lparr>changeFlags := (changeFlags params)\<lparr>extensionsChanged := True\<rparr>\<rparr>))
     = this\<lparr>state := (state this)\<lparr>model := Some (getModel this)\<rparr>\<rparr>
   \<and> ModelNew (getModel this)
     \<in> set (snd (updateState this
                  (params\<lparr>changeFlags := (changeFlags params)\<lparr>extensionsChanged := True\<rparr>\<rparr>)))
   \<and> snd (updateState this
            (params\<lparr>changeFlags := (changeFlags params)\<lparr>extensionsChanged := True\<rparr>\<rparr>))
     = [SuperUpdateState]
         @ (case model (state this) of None \<Rightarrow> [] | Some old \<Rightarrow> [ModelDestroy old])
         @ [ModelNew (getModel this), InvalidateAll]
   \<and> snd (updateState (this\<lparr>state := (state this)\<lparr>model := None\<rparr>\<rparr>)
            (params\<lparr>changeFlags := (changeFlags params)\<lparr>extensionsChanged := True\<rparr>\<rparr>))
     = [SuperUpdateState, ModelNew (getModel this), InvalidateAll]
   \<and> snd (updateState (this\<lparr>state := (state this)\<lparr>model := Some old\<rparr>\<rparr>)
            (params\<lparr>changeFlags := (changeFlags params)\<lparr>extensionsChanged := True\<rparr>\<rparr>))
     = [SuperUpdateState, ModelDestroy old, ModelNew (getModel this), InvalidateAll]
   \<and> length (filter isModelNew (snd (updates this ps)))
     = length (filter (\<lambda>p. extensionsChanged (changeFlags p)) ps)"
  by (simp add: updates_rebuild_count) (simp add: updateState_def Let_def getModel_def)

text \<open>
  C2 as stated fails: a layer that has its model receives an update whose new and old
  props are the same (so \<open>drawOutline\<close> did not change) and whose change flags report
  changed extensions; the update destroys the model and installs a new one.
\<close>

theorem rebuild_only_on_drawOutline_change_counterexample:
  "drawOutline (params_props (extensionsUpdate exampleProps exampleProps))
     = drawOutline (oldProps (extensionsUpdate exampleProps exampleProps))
   \<and> model (state readyLayer) = Some (getModel exampleLayer)
   \<and> snd (updateState readyLayer (extensionsUpdate exampleProps exampleProps))
     = [SuperUpdateState, ModelDestroy (getModel exampleLayer),
        ModelNew (getModel readyLayer), InvalidateAll]"
  by (simp add: readyLayer_def extensionsUpdate_def updateState_def Let_def)

subsection \<open>Default props\<close>

lemma isRgbaBytes_DEFAULT_COLOR: "isRgbaBytes DEFAULT_COLOR"
  by (simp add: isRgbaBytes_def isByte_def DEFAULT_COLOR_def)

lemma getColor_defaultProps:
  "getColor (defaultProps colorAsRgba) d =
     (case color d of
        None \<Rightarrow> DEFAULT_COLOR
      | Some c \<Rightarrow>
          if truthy c then (case colorAsRgba c of None \<Rightarrow> DEFAULT_COLOR | Some rgba \<Rightarrow> rgba)
          else DEFAULT_COLOR)"
  by (simp add: defaultProps_def split: option.split)

text \<open>
  C6: the default colour accessor returns [0, 132, 193, 255] for a record without a
  colour, for a record whose colour is falsy, and for a record whose colour
  \<^verbatim>\<open>colorAsRgba\<close> converts to a falsy value; otherwise it returns what
  \<^verbatim>\<open>colorAsRgba\<close> returns for the record's colour. Where that result is four bytes, as
  the contract of \<^verbatim>\<open>colorAsRgba\<close> says, the accessor returns four bytes in every case.
\<close>

theorem default_getColor:
  "(color d = None \<longrightarrow> getColor (defaultProps colorAsRgba) d = [0, 132, 193, 255])
   \<and> (\<forall>c. color d = Some c \<and> \<not> truthy c
        \<longrightarrow> getColor (defaultProps colorAsRgba) d = [0, 132, 193, 255])
   \<and> (\<forall>c. color d = Some c \<and> truthy c \<and> colorAsRgba c = None
        \<longrightarrow> getColor (defaultProps colorAsRgba) d = [0, 132, 193, 255])
   \<and> (\<forall>c rgba. color d = Some c \<and> truthy c \<and> colorAsRgba c = Some rgba
        \<longrightarrow> getColor (defaultProps colorAsRgba) d = rgba)
   \<and> ((\<forall>c rgba. color d = Some c \<and> truthy c \<and> colorAsRgba c = Some rgba \<longrightarrow> isRgbaBytes rgba)
        \<longrightarrow> isRgbaBytes (getColor (defaultProps colorAsRgba) d))"
proof -
  have bytes: "isRgbaBytes (getColor (defaultProps colorAsRgba) d)"
    if "\<forall>c rgba. color d = Some c \<and> truthy c \<and> colorAsRgba c = Some rgba \<longrightarrow> isRgbaBytes rgba"
    using that isRgbaBytes_DEFAULT_COLOR
    by (auto simp add: getColor_defaultProps split: option.split)
  show ?thesis
    using bytes by (simp add: getColor_defaultProps DEFAULT_COLOR_def)
qed

theorem default_getColor_witness:
  "getColor (defaultProps exampleColorAsRgba) \<lparr>color = None, count = 10\<rparr> = [0, 132, 193, 255]
   \<and> getColor (defaultProps exampleColorAsRgba) \<lparr>color = Some (ColorString []), count = 10\<rparr>
       = [0, 132, 193, 255]
   \<and> getColor (defaultProps exampleColorAsRgba)
         \<lparr>color = Some (ColorString ''no colour''), count = 10\<rparr>
       = [0, 132, 193, 255]
   \<and> getColor (defaultProps exampleColorAsRgba)
         \<lparr>color = Some (ColorString ''#ffffff''), count = 10\<rparr>
       = [255, 255, 255, 255]
   \<and> isRgbaBytes
       (getColor (defaultProps exampleColorAsRgba)
         \<lparr>color = Some (ColorString ''#ffffff''), count = 10\<rparr>)"
  using default_getColor [of "\<lparr>color = None, count = 10\<rparr>" exampleColorAsRgba]
    default_getColor [of "\<lparr>color = Some (ColorString []), count = 10\<rparr>" exampleColorAsRgba]
    default_getColor
      [of "\<lparr>color = Some (ColorString ''no colour''), count = 10\<rparr>" exampleColorAsRgba]
    default_getColor
      [of "\<lparr>color = Some (ColorString ''#ffffff''), count = 10\<rparr>" exampleColorAsRgba]
  by (simp add: isRgbaBytes_def isByte_def)

text \<open>
  C7: for every record, the default source-position and target-position accessors return
  [0, 0], the default thickness accessor returns the record's count, and the default
  pickability accessor returns 1.
\<close>

theorem default_accessors:
  "getSourcePosition (defaultProps colorAsRgba) d = [0, 0]
   \<and> getTargetPosition (defaultProps colorAsRgba) d = [0, 0]
   \<and> getThickness (defaultProps colorAsRgba) d = count d
   \<and> getPickable (defaultProps colorAsRgba) d = 1"
  by (simp add: defaultProps_def)

text \<open>
  C8: by default the outline is drawn, the outline colour is [255, 255, 255, 255], the
  outline thickness is 1, the thickness unit is 12, and the depth test is off.
\<close>

theorem default_configuration:
  "drawOutline (defaultProps colorAsRgba)
   \<and> outlineColor (defaultProps colorAsRgba) = [255, 255, 255, 255]
   \<and> outlineThickness (defaultProps colorAsRgba) = 1
   \<and> thicknessUnit (defaultProps colorAsRgba) = 12
   \<and> \<not> depthTest (parameters (defaultProps colorAsRgba))"
  by (simp add: defaultProps_def)

subsection \<open>Drawing\<close>

text \<open>
  C10: a draw call of a layer that has its model sends the uniforms it was given with
  three of them replaced: \<^verbatim>\<open>thicknessUnit\<close> is twice the prop (24 when the prop is 12),
  \<^verbatim>\<open>gap\<close> is 0.5, and \<^verbatim>\<open>outlineColor\<close> is the prop with each component divided by
  255.
\<close>

theorem draw_uniforms:
  assumes "model (state this) = Some m"
  shows "\<exists>u. draw this uniforms = ([GlLineWidth 1, ModelSetUniforms m u, ModelDraw m], None)
           \<and> sentUniforms (fst (draw this uniforms)) = Some u
           \<and> u ''thicknessUnit'' = Some (UNum (2 * thicknessUnit (props this)))
           \<and> u ''gap'' = Some (UNum 0.5)
           \<and> u ''outlineColor'' = Some (UVec (map (\<lambda>x. x / 255) (outlineColor (props this))))
           \<and> (thicknessUnit (props this) = 12 \<longrightarrow> u ''thicknessUnit'' = Some (UNum 24))"
  using assms by (simp add: draw_def)

theorem draw_uniforms_witness:
  "model (state readyLayer) = Some (getModel exampleLayer)
   \<and> (\<exists>u. sentUniforms (fst (draw readyLayer Map.empty)) = Some u
         \<and> u ''thicknessUnit'' = Some (UNum 24)
         \<and> u ''gap'' = Some (UNum 0.5)
         \<and> u ''outlineColor'' = Some (UVec [1, 1, 1, 1]))"
proof -
  have ready: "model (state readyLayer) = Some (getModel exampleLayer)"
    by (simp add: readyLayer_def extensionsUpdate_def updateState_def Let_def)
  have props: "props readyLayer = exampleProps"
    by (simp add: readyLayer_def extensionsUpdate_def updateState_def Let_def exampleLayer_def
        FlowLinesLayer_def)
  show ?thesis
    using ready draw_uniforms [OF ready, of Map.empty]
    by (auto simp add: props exampleProps_def)
qed

subsection \<open>Tooltip\<close>

text \<open>
  C9: there is no tooltip for no picking info and for an info whose type is neither
  location nor flow. For a flow, the tooltip is at (left = x, top = y) and its content
  carries the origin's id, the destination's id and the count; for a location, it is at
  the same position and carries the name and the incoming, outgoing and internal totals.
\<close>

theorem tooltip_state:
  "getTooltipState None = None
   \<and> getTooltipState (Some (OtherPickingInfo x y tag)) = None
   \<and> map_option position (getTooltipState (Some (FlowPickingInfo x y origin dest n)))
       = Some \<lparr>pos_left = x, pos_top = y\<rparr>
   \<and> map_option (exprValues \<circ> content) (getTooltipState (Some (FlowPickingInfo x y origin dest n)))
       = Some [StringValue (loc_id origin), StringValue (loc_id dest), NumberValue n]
   \<and> map_option position (getTooltipState (Some (LocationPickingInfo x y name totals)))
       = Some \<lparr>pos_left = x, pos_top = y\<rparr>
   \<and> map_option (exprValues \<circ> content)
         (getTooltipState (Some (LocationPickingInfo x y name totals)))
       = Some [StringValue name, NumberValue (incomingCount totals),
               NumberValue (outgoingCount totals), NumberValue (internalCount totals)]"
  by simp

end
